theory Spec2Isabelle
  imports Complex_Main "HOL-Library.Sublist"
begin

section \<open>The storage endpoint of \<^verbatim>\<open>api/storage.js\<close>\<close>

text \<open>
  The module is one asynchronous request handler in front of a Postgres table. The
  embedding keeps the handler's own control flow: the diagnostic short cut, the
  configuration guard, \<^verbatim>\<open>ensureSchema\<close>, the dispatch on the method and on the shape of
  the body, and the \<^verbatim>\<open>try\<close>/\<^verbatim>\<open>catch\<close> around all of it. Everything the handler gets
  from outside (the URL class, \<^verbatim>\<open>JSON.parse\<close>, the clock, the \<^verbatim>\<open>sql\<close> client of
  \<^verbatim>\<open>@vercel/postgres\<close>) is a parameter; a rejected promise is the left summand of a sum.
\<close>

subsection \<open>JavaScript values\<close>

text \<open>
  The values JSON can carry. An object is the list of its own properties in insertion
  order; JavaScript builds no object with a key twice, and where a list has one twice the
  first occurrence is the property that is read. \<^verbatim>\<open>undefined\<close> is not a JSON value: a
  property that may be missing is a \<open>json option\<close>. A number of a JSON value is a finite
  double, which is a rational; the handler computes with none, it only tests one for
  being zero.
\<close>

datatype json =
    JNull
  | JBool bool
  | JNum rat
  | JStr string
  | JArr "json list"
  | JObj "(string \<times> json) list"

text \<open>What \<^verbatim>\<open>if (v)\<close>, \<^verbatim>\<open>v && w\<close> and \<^verbatim>\<open>!!v\<close> test.\<close>

fun truthy :: "json \<Rightarrow> bool" where
  "truthy JNull = False"
| "truthy (JBool b) = b"
| "truthy (JNum n) = (n \<noteq> 0)"
| "truthy (JStr s) = (s \<noteq> [])"
| "truthy (JArr xs) = True"
| "truthy (JObj kvs) = True"

fun truthy_opt :: "json option \<Rightarrow> bool" where
  "truthy_opt None = False"
| "truthy_opt (Some v) = truthy v"

text \<open>\<^verbatim>\<open>typeof v === 'object'\<close>: true of objects, of arrays and of \<^verbatim>\<open>null\<close>.\<close>

fun typeof_object :: "json \<Rightarrow> bool" where
  "typeof_object JNull = True"
| "typeof_object (JArr xs) = True"
| "typeof_object (JObj kvs) = True"
| "typeof_object v = False"

text \<open>
  \<^verbatim>\<open>v.k\<close> for the property names the handler reads (\<^verbatim>\<open>ping\<close>, \<^verbatim>\<open>kv\<close>, \<^verbatim>\<open>stamp\<close>), on a
  value that is neither \<^verbatim>\<open>null\<close> nor \<^verbatim>\<open>undefined\<close>: only an object can have them.
\<close>

fun get_prop :: "json \<Rightarrow> string \<Rightarrow> json option" where
  "get_prop (JObj kvs) k = map_of kvs k"
| "get_prop v k = None"

text \<open>
  An object literal as \<^verbatim>\<open>res.json\<close> sends it: \<^verbatim>\<open>JSON.stringify\<close> leaves out a property
  whose value is \<^verbatim>\<open>undefined\<close>.
\<close>

fun object_literal :: "(string \<times> json option) list \<Rightarrow> (string \<times> json) list" where
  "object_literal [] = []"
| "object_literal ((k, None) # kvs) = object_literal kvs"
| "object_literal ((k, Some v) # kvs) = (k, v) # object_literal kvs"

subsection \<open>Strings\<close>

text \<open>\<^verbatim>\<open>s.indexOf(pat)\<close>: the first position where \<open>pat\<close> starts, or \<open>-1\<close>.\<close>

fun indexOf_from :: "int \<Rightarrow> string \<Rightarrow> string \<Rightarrow> int" where
  "indexOf_from i [] pat = (if pat = [] then i else - 1)"
| "indexOf_from i (c # cs) pat =
     (if prefix pat (c # cs) then i else indexOf_from (i + 1) cs pat)"

definition indexOf :: "string \<Rightarrow> string \<Rightarrow> int" where
  "indexOf s pat = indexOf_from 0 s pat"

text \<open>\<^verbatim>\<open>String(n)\<close> for an integral number such as \<^verbatim>\<open>Date.now()\<close>: its decimal digits.\<close>

fun digits :: "nat \<Rightarrow> string" where
  "digits n =
     (if n < 10 then [''0123456789'' ! n]
      else digits (n div 10) @ [''0123456789'' ! (n mod 10)])"

declare digits.simps [simp del]

definition String_of :: "int \<Rightarrow> string" where
  "String_of i = (if i < 0 then CHR ''-'' # digits (nat (- i)) else digits (nat i))"

subsection \<open>The process environment\<close>

type_synonym env = "string \<rightharpoonup> string"

text \<open>\<^verbatim>\<open>!!process.env.X\<close>: the variable is there and is not the empty string.\<close>

fun nonempty :: "string option \<Rightarrow> bool" where
  "nonempty None = False"
| "nonempty (Some s) = (s \<noteq> [])"

text \<open>The statement run when the module is loaded, before the client is required.\<close>

definition module_init :: "env \<Rightarrow> env" where
  "module_init e =
     (if \<not> nonempty (e ''POSTGRES_URL'') \<and> nonempty (e ''DATABASE_URL'')
      then e(''POSTGRES_URL'' := e ''DATABASE_URL'')
      else e)"

definition STORAGE_KEY :: string where
  "STORAGE_KEY = ''sdmfpippdc:storage:v1''"

definition PING_KEY :: string where
  "PING_KEY = ''sdmfpippdc:ping:v1''"

definition hasPostgresEnv :: "env \<Rightarrow> bool" where
  "hasPostgresEnv e =
     (nonempty (e ''POSTGRES_URL'') \<or>
      nonempty (e ''POSTGRES_PRISMA_URL'') \<or>
      nonempty (e ''POSTGRES_URL_NON_POOLING'') \<or>
      nonempty (e ''POSTGRES_HOST'') \<or>
      nonempty (e ''DATABASE_URL''))"

text \<open>The five variables the module looks at, as the specification lists them.\<close>

definition recognized :: "string list" where
  "recognized =
     [''POSTGRES_URL'', ''POSTGRES_PRISMA_URL'', ''POSTGRES_URL_NON_POOLING'',
      ''POSTGRES_HOST'', ''DATABASE_URL'']"

subsection \<open>Requests, responses and what the handler is given\<close>

text \<open>
  The request as the platform hands it over. \<^verbatim>\<open>req.body\<close> is \<open>None\<close> when it is
  \<^verbatim>\<open>undefined\<close>, \<open>Some (JStr s)\<close> when the platform left it a string, and the parsed
  value otherwise.
\<close>

record request =
  "method" :: string
  url :: string
  body :: "json option"

text \<open>
  What \<^verbatim>\<open>res.setHeader\<close>, \<^verbatim>\<open>res.status\<close> and \<^verbatim>\<open>res.json\<close> leave behind: the status code,
  the headers the handler set, in order, and the value given to \<^verbatim>\<open>res.json\<close>.
\<close>

record response =
  status :: nat
  headers :: "(string \<times> string) list"
  payload :: json

text \<open>
  The value a rejected \<^verbatim>\<open>await sql\<close> throws, as far as the \<^verbatim>\<open>catch\<close> block reads it.
  A field is \<open>None\<close> when the property is \<^verbatim>\<open>undefined\<close>.
\<close>

record js_error =
  e_message :: "string option"
  e_code :: "string option"
  e_name :: "string option"

text \<open>
  The three statements the module sends. The second argument of the upsert stands for the
  text \<^verbatim>\<open>JSON.stringify\<close> makes of the value, which the statement casts to \<^verbatim>\<open>jsonb\<close>: a
  JSON text is represented by the document it denotes.
\<close>

datatype query =
    CreateTableIfNotExists
  | SelectValue string
  | Upsert string json

record row =
  row_value :: json

text \<open>
  The built-ins and the client the handler calls:
  \<^item> \<open>URL_searchParams u\<close> is the parameter list of
    \<^verbatim>\<open>new URL(u, 'http://localhost').searchParams\<close>, or \<open>None\<close> when the constructor throws;
  \<^item> \<open>JSON_parse s\<close> is \<open>None\<close> when \<^verbatim>\<open>JSON.parse(s)\<close> throws;
  \<^item> \<open>Date_now\<close> is what \<^verbatim>\<open>Date.now()\<close> returns during the request;
  \<^item> \<open>process_version\<close> is \<^verbatim>\<open>process.version\<close>;
  \<^item> \<open>sql q d\<close> runs statement \<open>q\<close> against the database in state \<open>d\<close>: it resolves with
    the rows or rejects with an error, and leaves the database in a new state.
\<close>

record 'db runtime =
  URL_searchParams :: "string \<Rightarrow> (string \<times> string) list option"
  JSON_parse :: "string \<Rightarrow> json option"
  Date_now :: int
  process_version :: string
  sql :: "query \<Rightarrow> 'db \<Rightarrow> (js_error + row list) \<times> 'db"

text \<open>
  The handler's effect on the world: the database, and the statements sent to it so far,
  oldest first, each with what it resolved or rejected with.
\<close>

type_synonym event = "query \<times> (js_error + row list)"

type_synonym 'db world = "'db \<times> event list"

definition run_sql ::
  "'db runtime \<Rightarrow> query \<Rightarrow> 'db world \<Rightarrow> (js_error + row list) \<times> 'db world" where
  "run_sql rt q w =
     (case sql rt q (fst w) of (r, d') \<Rightarrow> (r, (d', snd w @ [(q, r)])))"

subsection \<open>The functions of the module\<close>

definition ensureSchema :: "'db runtime \<Rightarrow> 'db world \<Rightarrow> (js_error + unit) \<times> 'db world" where
  "ensureSchema rt w =
     (case run_sql rt CreateTableIfNotExists w of
        (Inl e, w') \<Rightarrow> (Inl e, w')
      | (Inr rows, w') \<Rightarrow> (Inr (), w'))"

definition parseBody :: "'db runtime \<Rightarrow> request \<Rightarrow> json" where
  "parseBody rt req =
     (case body req of
        Some (JStr s) \<Rightarrow>
          (case JSON_parse rt (if s = [] then ''{}'' else s) of
             Some v \<Rightarrow> v
           | None \<Rightarrow> JObj [])
      | Some v \<Rightarrow> (if truthy v then v else JObj [])
      | None \<Rightarrow> JObj [])"

text \<open>The flag \<^verbatim>\<open>diag\<close>: the inner \<^verbatim>\<open>try\<close>, and its \<^verbatim>\<open>catch\<close> when the URL does not parse.\<close>

definition is_diag :: "'db runtime \<Rightarrow> request \<Rightarrow> bool" where
  "is_diag rt req =
     (case URL_searchParams rt (url req) of
        Some ps \<Rightarrow> (let v = map_of ps ''diag'' in v = Some ''1'' \<or> v = Some ''true'')
      | None \<Rightarrow> url req \<noteq> [] \<and> 0 \<le> indexOf (url req) ''diag=1'')"

definition no_store :: "(string \<times> string) list" where
  "no_store = [(''Cache-Control'', ''no-store'')]"

definition diag_response :: "'db runtime \<Rightarrow> env \<Rightarrow> response" where
  "diag_response rt e =
     \<lparr>status = 200, headers = no_store,
      payload = JObj
        [(''ok'', JBool True),
         (''diag'', JObj
            [(''hasPostgresEnv'', JBool (hasPostgresEnv e)),
             (''has_POSTGRES_URL'', JBool (nonempty (e ''POSTGRES_URL''))),
             (''has_POSTGRES_PRISMA_URL'', JBool (nonempty (e ''POSTGRES_PRISMA_URL''))),
             (''has_POSTGRES_URL_NON_POOLING'',
                JBool (nonempty (e ''POSTGRES_URL_NON_POOLING''))),
             (''has_POSTGRES_HOST'', JBool (nonempty (e ''POSTGRES_HOST''))),
             (''has_DATABASE_URL'', JBool (nonempty (e ''DATABASE_URL''))),
             (''node'', JStr (process_version rt))])]\<rparr>"

text \<open>The message is the source's French sentence; \<open>0xE9\<close> is its e acute.\<close>

definition not_configured_message :: string where
  "not_configured_message =
     ''Vercel Postgres (Neon) non configur'' @ [char_of (0xE9 :: nat)] @
     '' (variables d'' @ [char_of (0x27 :: nat)] @ ''environnement manquantes).''"

definition not_configured_response :: response where
  "not_configured_response =
     \<lparr>status = 503, headers = no_store,
      payload = JObj
        [(''ok'', JBool False),
         (''error'', JStr ''pg_not_configured''),
         (''message'', JStr not_configured_message)]\<rparr>"

text \<open>\<^verbatim>\<open>rows && rows[0] && rows[0].value\<close>, when that is truthy.\<close>

definition first_value :: "row list \<Rightarrow> json option" where
  "first_value rows =
     (case rows of
        [] \<Rightarrow> None
      | r # rest \<Rightarrow> (if truthy (row_value r) then Some (row_value r) else None))"

definition get_response :: "row list \<Rightarrow> response" where
  "get_response rows =
     (let kv = (case first_value rows of Some v \<Rightarrow> v | None \<Rightarrow> JObj [])
      in \<lparr>status = 200, headers = no_store,
          payload = JObj [(''ok'', JBool True), (''kv'', kv)]\<rparr>)"

definition ping_response :: "string \<Rightarrow> row list \<Rightarrow> response" where
  "ping_response stamp rows =
     (let ok = (case first_value rows of
                  Some v \<Rightarrow> get_prop v ''stamp'' = Some (JStr stamp)
                | None \<Rightarrow> False)
      in \<lparr>status = (if ok then 200 else 500), headers = no_store,
          payload = JObj [(''ok'', JBool ok)]\<rparr>)"

text \<open>The test \<^verbatim>\<open>body && body.ping\<close> that selects the ping branch.\<close>

definition ping_intent :: "json \<Rightarrow> bool" where
  "ping_intent b = (truthy b \<and> truthy_opt (get_prop b ''ping''))"

text \<open>The value the data branch writes: \<^verbatim>\<open>body.kv\<close> or \<^verbatim>\<open>{}\<close>.\<close>

definition kv_of :: "json \<Rightarrow> json" where
  "kv_of b =
     (if truthy b then
        (case get_prop b ''kv'' of
           Some v \<Rightarrow> (if truthy v \<and> typeof_object v then v else JObj [])
         | None \<Rightarrow> JObj [])
      else JObj [])"

definition ok_response :: response where
  "ok_response = \<lparr>status = 200, headers = no_store, payload = JObj [(''ok'', JBool True)]\<rparr>"

definition method_not_allowed_response :: response where
  "method_not_allowed_response =
     \<lparr>status = 405, headers = [(''Allow'', ''GET, POST'')],
      payload = JObj [(''ok'', JBool False), (''error'', JStr ''method_not_allowed'')]\<rparr>"

text \<open>\<^verbatim>\<open>e && e.f ? String(e.f) : undefined\<close> for a field of the thrown value.\<close>

fun string_field :: "string option \<Rightarrow> json option" where
  "string_field None = None"
| "string_field (Some s) = (if s = [] then None else Some (JStr s))"

definition error_response :: "js_error \<Rightarrow> response" where
  "error_response e =
     \<lparr>status = 500, headers = no_store,
      payload = JObj (object_literal
        [(''ok'', Some (JBool False)),
         (''error'',
            Some (case string_field (e_message e) of
                    Some m \<Rightarrow> m
                  | None \<Rightarrow> JStr ''server_error'')),
         (''details'',
            Some (JObj (object_literal
              [(''code'', string_field (e_code e)),
               (''name'', string_field (e_name e))])))])\<rparr>"

text \<open>The body of the outer \<^verbatim>\<open>try\<close>: it returns a response or throws.\<close>

definition handler_try ::
  "'db runtime \<Rightarrow> env \<Rightarrow> request \<Rightarrow> 'db world \<Rightarrow> (js_error + response) \<times> 'db world" where
  "handler_try rt e req w =
     (if is_diag rt req then (Inr (diag_response rt e), w)
      else if \<not> hasPostgresEnv e then (Inr not_configured_response, w)
      else
        (case ensureSchema rt w of
           (Inl err, w1) \<Rightarrow> (Inl err, w1)
         | (Inr u, w1) \<Rightarrow>
             if method req = ''GET'' then
               (case run_sql rt (SelectValue STORAGE_KEY) w1 of
                  (Inl err, w2) \<Rightarrow> (Inl err, w2)
                | (Inr rows, w2) \<Rightarrow> (Inr (get_response rows), w2))
             else if method req = ''POST'' then
               (let b = parseBody rt req in
                if ping_intent b then
                  (let stamp = String_of (Date_now rt) in
                   case run_sql rt (Upsert PING_KEY (JObj [(''stamp'', JStr stamp)])) w1 of
                     (Inl err, w2) \<Rightarrow> (Inl err, w2)
                   | (Inr ins, w2) \<Rightarrow>
                       (case run_sql rt (SelectValue PING_KEY) w2 of
                          (Inl err, w3) \<Rightarrow> (Inl err, w3)
                        | (Inr rows, w3) \<Rightarrow> (Inr (ping_response stamp rows), w3)))
                else
                  (case run_sql rt (Upsert STORAGE_KEY (kv_of b)) w1 of
                     (Inl err, w2) \<Rightarrow> (Inl err, w2)
                   | (Inr ins, w2) \<Rightarrow> (Inr ok_response, w2)))
             else (Inr method_not_allowed_response, w1)))"

text \<open>The exported function: the \<^verbatim>\<open>try\<close> with its \<^verbatim>\<open>catch\<close>.\<close>

definition handler :: "'db runtime \<Rightarrow> env \<Rightarrow> request \<Rightarrow> 'db world \<Rightarrow> response \<times> 'db world" where
  "handler rt e req w =
     (case handler_try rt e req w of
        (Inl err, w') \<Rightarrow> (error_response err, w')
      | (Inr res, w') \<Rightarrow> (res, w'))"

subsection \<open>The database the specification describes\<close>

text \<open>
  Modelled from the spec: the Postgres server behind \<^verbatim>\<open>sql\<close> is not part of the module.
  The specification (sections 3 and 4.2) gives it one table with at most one row per key,
  created if absent by the schema statement; a write is an upsert by key and a read
  returns the row of the key, if there is one. \<open>None\<close> is the database before the table
  exists, where reading and writing fail with Postgres' \<^verbatim>\<open>undefined_table\<close>.
\<close>

type_synonym pg = "(string \<rightharpoonup> json) option"

definition undefined_table :: js_error where
  "undefined_table =
     \<lparr>e_message = Some ''relation app_storage does not exist'',
      e_code = Some ''42P01'', e_name = Some ''error''\<rparr>"

fun pg_sql :: "query \<Rightarrow> pg \<Rightarrow> (js_error + row list) \<times> pg" where
  "pg_sql CreateTableIfNotExists None = (Inr [], Some Map.empty)"
| "pg_sql CreateTableIfNotExists (Some t) = (Inr [], Some t)"
| "pg_sql (SelectValue k) None = (Inl undefined_table, None)"
| "pg_sql (SelectValue k) (Some t) =
     (Inr (case t k of None \<Rightarrow> [] | Some v \<Rightarrow> [\<lparr>row_value = v\<rparr>]), Some t)"
| "pg_sql (Upsert k v) None = (Inl undefined_table, None)"
| "pg_sql (Upsert k v) (Some t) = (Inr [], Some (t(k \<mapsto> v)))"

subsection \<open>Notions of the specification\<close>

text \<open>
  The stamp the re-read returns, in the specification's words: the \<^verbatim>\<open>stamp\<close> property of
  the value of the row read back, if a row came back and its value has one.
\<close>

definition reread_stamp :: "row list \<Rightarrow> json option" where
  "reread_stamp rows =
     (case rows of [] \<Rightarrow> None | r # rest \<Rightarrow> get_prop (row_value r) ''stamp'')"

text \<open>
  The number a decimal numeral denotes, with an optional leading minus sign: what the
  clock value was, read back from a stamp.
\<close>

definition digit_value :: "char \<Rightarrow> nat" where
  "digit_value c = of_char c - 48"

definition decimal :: "string \<Rightarrow> nat" where
  "decimal s = foldl (\<lambda>acc c. 10 * acc + digit_value c) 0 s"

definition number_of :: "string \<Rightarrow> int" where
  "number_of s =
     (case s of
        [] \<Rightarrow> 0
      | c # cs \<Rightarrow> (if c = CHR ''-'' then - int (decimal cs) else int (decimal (c # cs))))"

text \<open>The value of the \<open>STORAGE_KEY\<close> row of the specified database, if the row exists.\<close>

definition storage_row :: "pg \<Rightarrow> json option" where
  "storage_row d = (case d of None \<Rightarrow> None | Some t \<Rightarrow> t STORAGE_KEY)"

text \<open>Every statement of a log resolved.\<close>

definition all_resolved :: "event list \<Rightarrow> bool" where
  "all_resolved evs = list_all (\<lambda>ev. case snd ev of Inl err \<Rightarrow> False | Inr rows \<Rightarrow> True) evs"

subsection \<open>A runtime for the examples\<close>

text \<open>
  The URL class on the URLs of the examples: the endpoint without a query, the endpoint
  with \<^verbatim>\<open>?diag=1\<close>, and a request target whose host is an unclosed bracket, which the
  constructor rejects. No example uses another URL.
\<close>

definition example_searchParams :: "string \<Rightarrow> (string \<times> string) list option" where
  "example_searchParams u =
     (if u = ''/api/storage'' then Some []
      else if u = ''/api/storage?diag=1'' then Some [(''diag'', ''1'')]
      else None)"

text \<open>
  \<^verbatim>\<open>JSON.parse\<close> on the texts of the examples: \<^verbatim>\<open>{}\<close> is the empty object and \<^verbatim>\<open>{bad\<close>
  is a syntax error. No example uses another text.
\<close>

definition example_JSON_parse :: "string \<Rightarrow> json option" where
  "example_JSON_parse s = (if s = ''{}'' then Some (JObj []) else None)"

definition example_rt :: "pg runtime" where
  "example_rt =
     \<lparr>URL_searchParams = example_searchParams, JSON_parse = example_JSON_parse,
      Date_now = 1700000000123, process_version = ''v20.11.0'', sql = pg_sql\<rparr>"

definition example_env :: env where
  "example_env = [''POSTGRES_URL'' \<mapsto> ''postgres://app@db.example/app'']"

text \<open>A database that cannot be reached: every statement rejects.\<close>

definition connection_refused :: js_error where
  "connection_refused =
     \<lparr>e_message = Some ''connect ECONNREFUSED'', e_code = Some ''ECONNREFUSED'',
      e_name = Some ''Error''\<rparr>"

definition unreachable_rt :: "pg runtime" where
  "unreachable_rt = example_rt\<lparr>sql := (\<lambda>q d. (Inl connection_refused, d))\<rparr>"

text \<open>
  A database that answers every read of a row with a stamp written long ago, and is the
  specified database otherwise.
\<close>

definition stale_sql :: "query \<Rightarrow> pg \<Rightarrow> (js_error + row list) \<times> pg" where
  "stale_sql q d =
     (case q of
        SelectValue k \<Rightarrow> (Inr [\<lparr>row_value = JObj [(''stamp'', JStr ''1600000000000'')]\<rparr>], d)
      | _ \<Rightarrow> pg_sql q d)"

definition stale_rt :: "pg runtime" where
  "stale_rt = example_rt\<lparr>sql := stale_sql\<rparr>"

definition example_get :: request where
  "example_get = \<lparr>method = ''GET'', url = ''/api/storage'', body = None\<rparr>"

definition example_post :: "json \<Rightarrow> request" where
  "example_post b = \<lparr>method = ''POST'', url = ''/api/storage'', body = Some b\<rparr>"

definition example_delete :: request where
  "example_delete = \<lparr>method = ''DELETE'', url = ''/api/storage'', body = None\<rparr>"

section \<open>Properties\<close>

subsection \<open>Auxiliary facts\<close>

lemma indexOf_from_sublist: "0 \<le> i \<Longrightarrow> (0 \<le> indexOf_from i s pat) = sublist pat s"
proof (induction s arbitrary: i)
  case Nil
  then show ?case by simp
next
  case (Cons c cs)
  show ?case
  proof (cases "prefix pat (c # cs)")
    case True
    then have "sublist pat (c # cs)" by (simp add: sublist_Cons_right)
    with True Cons.prems show ?thesis by simp
  next
    case False
    have "(0 \<le> indexOf_from (i + 1) cs pat) = sublist pat cs"
      using Cons.prems by (intro Cons.IH) simp
    with False show ?thesis by (simp add: sublist_Cons_right)
  qed
qed

lemma indexOf_sublist: "(0 \<le> indexOf s pat) = sublist pat s"
  by (simp add: indexOf_def indexOf_from_sublist)

lemma hasPostgresEnv_iff: "hasPostgresEnv e = (\<exists>k \<in> set recognized. nonempty (e k))"
  by (simp add: hasPostgresEnv_def recognized_def)

lemma falsy_has_no_prop: "\<not> truthy v \<Longrightarrow> get_prop v k = None"
  by (cases v) simp_all

lemma ping_intent_iff: "ping_intent b = truthy_opt (get_prop b ''ping'')"
  by (cases b) (simp_all add: ping_intent_def)

lemma ping_ok_iff:
  "(case first_value rows of Some v \<Rightarrow> get_prop v ''stamp'' = Some (JStr s) | None \<Rightarrow> False)
     = (reread_stamp rows = Some (JStr s))"
  by (cases rows) (auto simp: first_value_def reread_stamp_def falsy_has_no_prop)

lemma kv_of_cases:
  "kv_of b =
     (case get_prop b ''kv'' of
        Some (JObj ps) \<Rightarrow> JObj ps
      | Some (JArr xs) \<Rightarrow> JArr xs
      | _ \<Rightarrow> JObj [])"
proof (cases "truthy b")
  case False
  then show ?thesis by (simp add: kv_of_def falsy_has_no_prop)
next
  case True
  show ?thesis
  proof (cases "get_prop b ''kv''")
    case None
    with True show ?thesis by (simp add: kv_of_def)
  next
    case (Some v)
    with True show ?thesis by (cases v) (simp_all add: kv_of_def)
  qed
qed

lemma digit_value_table: "k < 10 \<Longrightarrow> digit_value (''0123456789'' ! k) = k"
proof -
  assume "k < 10"
  then consider "k = 0" | "k = 1" | "k = 2" | "k = 3" | "k = 4" | "k = 5" | "k = 6"
    | "k = 7" | "k = 8" | "k = 9" by atomize_elim arith
  then show ?thesis by cases (simp_all add: digit_value_def)
qed

lemma digit_not_minus: "k < 10 \<Longrightarrow> ''0123456789'' ! k \<noteq> CHR ''-''"
proof -
  assume "k < 10"
  then consider "k = 0" | "k = 1" | "k = 2" | "k = 3" | "k = 4" | "k = 5" | "k = 6"
    | "k = 7" | "k = 8" | "k = 9" by atomize_elim arith
  then show ?thesis by cases simp_all
qed

lemma decimal_snoc: "decimal (s @ [c]) = 10 * decimal s + digit_value c"
  by (simp add: decimal_def)

lemma decimal_digits: "decimal (digits n) = n"
proof (induction n rule: digits.induct)
  case (1 n)
  show ?case
  proof (cases "n < 10")
    case True
    then show ?thesis
      by (subst digits.simps) (simp add: decimal_def digit_value_table)
  next
    case False
    with "1.IH" have "decimal (digits (n div 10)) = n div 10" by simp
    with False show ?thesis
      by (subst digits.simps) (simp add: decimal_snoc digit_value_table)
  qed
qed

lemma digits_head: "\<exists>c cs. digits n = c # cs \<and> c \<noteq> CHR ''-''"
proof (induction n rule: digits.induct)
  case (1 n)
  show ?case
  proof (cases "n < 10")
    case True
    then show ?thesis
      by (subst digits.simps) (simp add: digit_not_minus)
  next
    case False
    with "1.IH" obtain c cs where "digits (n div 10) = c # cs" "c \<noteq> CHR ''-''" by auto
    with False show ?thesis
      by (subst digits.simps) simp
  qed
qed

lemma number_of_String_of: "number_of (String_of i) = i"
proof (cases "i < 0")
  case True
  then show ?thesis by (simp add: number_of_def String_of_def decimal_digits)
next
  case False
  obtain c cs where d: "digits (nat i) = c # cs" "c \<noteq> CHR ''-''"
    using digits_head by blast
  have "int (decimal (digits (nat i))) = i" using False by (simp add: decimal_digits)
  with d False show ?thesis by (simp add: number_of_def String_of_def)
qed

lemma STORAGE_KEY_neq_PING_KEY: "STORAGE_KEY \<noteq> PING_KEY"
  by (simp add: STORAGE_KEY_def PING_KEY_def)

lemma all_resolved_simps [simp]:
  "all_resolved []"
  "all_resolved ((q, r) # evs) = ((\<exists>rows. r = Inr rows) \<and> all_resolved evs)"
  "all_resolved (evs @ evs') = (all_resolved evs \<and> all_resolved evs')"
  by (auto simp: all_resolved_def split: sum.splits)

lemma all_resolved_no_Inl: "all_resolved evs \<Longrightarrow> (q, Inl err) \<notin> set evs"
  by (auto simp: all_resolved_def list_all_iff)

lemma run_sql_eq:
  "sql rt q d = (r, d') \<Longrightarrow> run_sql rt q (d, evs) = (r, (d', evs @ [(q, r)]))"
  by (simp add: run_sql_def)

lemmas response_defs =
  diag_response_def not_configured_response_def get_response_def ping_response_def
  ok_response_def method_not_allowed_response_def

text \<open>The branches of the handler, one equation each.\<close>

lemma handler_diag: "is_diag rt req \<Longrightarrow> handler rt e req w = (diag_response rt e, w)"
  by (simp add: handler_def handler_try_def)

lemma handler_unconfigured:
  "\<not> is_diag rt req \<Longrightarrow> \<not> hasPostgresEnv e \<Longrightarrow>
   handler rt e req w = (not_configured_response, w)"
  by (simp add: handler_def handler_try_def)

lemma handler_schema_rejects:
  assumes "\<not> is_diag rt req" and "hasPostgresEnv e"
    and "sql rt CreateTableIfNotExists d = (Inl err, d1)"
  shows "handler_try rt e req (d, evs) = (Inl err, (d1, evs @ [(CreateTableIfNotExists, Inl err)]))"
  using assms(1,2) run_sql_eq[OF assms(3), of evs]
  by (simp add: handler_try_def ensureSchema_def)

lemma handler_get:
  assumes "\<not> is_diag rt req" and "hasPostgresEnv e" and "method req = ''GET''"
    and "sql rt CreateTableIfNotExists d = (Inr r0, d1)"
    and "sql rt (SelectValue STORAGE_KEY) d1 = (r1, d2)"
  shows "handler_try rt e req (d, evs) =
     (case r1 of Inl err \<Rightarrow> Inl err | Inr rows \<Rightarrow> Inr (get_response rows),
      (d2, evs @ [(CreateTableIfNotExists, Inr r0), (SelectValue STORAGE_KEY, r1)]))"
  using assms(1-3) run_sql_eq[OF assms(4), of evs]
    run_sql_eq[OF assms(5), of "evs @ [(CreateTableIfNotExists, Inr r0)]"]
  by (cases r1) (simp_all add: handler_try_def ensureSchema_def)

lemma handler_ping_upsert_rejects:
  assumes "\<not> is_diag rt req" and "hasPostgresEnv e" and "method req = ''POST''"
    and "ping_intent (parseBody rt req)"
    and "sql rt CreateTableIfNotExists d = (Inr r0, d1)"
    and "sql rt (Upsert PING_KEY (JObj [(''stamp'', JStr (String_of (Date_now rt)))])) d1
           = (Inl err, d2)"
  shows "handler_try rt e req (d, evs) =
     (Inl err,
      (d2, evs @ [(CreateTableIfNotExists, Inr r0),
                  (Upsert PING_KEY (JObj [(''stamp'', JStr (String_of (Date_now rt)))]),
                   Inl err)]))"
  using assms(1-4) run_sql_eq[OF assms(5), of evs]
    run_sql_eq[OF assms(6), of "evs @ [(CreateTableIfNotExists, Inr r0)]"]
  by (simp add: handler_try_def ensureSchema_def Let_def)

lemma handler_ping:
  assumes "\<not> is_diag rt req" and "hasPostgresEnv e" and "method req = ''POST''"
    and "ping_intent (parseBody rt req)"
    and "sql rt CreateTableIfNotExists d = (Inr r0, d1)"
    and "sql rt (Upsert PING_KEY (JObj [(''stamp'', JStr (String_of (Date_now rt)))])) d1
           = (Inr r1, d2)"
    and "sql rt (SelectValue PING_KEY) d2 = (r2, d3)"
  shows "handler_try rt e req (d, evs) =
     (case r2 of
        Inl err \<Rightarrow> Inl err
      | Inr rows \<Rightarrow> Inr (ping_response (String_of (Date_now rt)) rows),
      (d3, evs @ [(CreateTableIfNotExists, Inr r0),
                  (Upsert PING_KEY (JObj [(''stamp'', JStr (String_of (Date_now rt)))]),
                   Inr r1),
                  (SelectValue PING_KEY, r2)]))"
  using assms(1-4) run_sql_eq[OF assms(5), of evs]
    run_sql_eq[OF assms(6), of "evs @ [(CreateTableIfNotExists, Inr r0)]"]
    run_sql_eq[OF assms(7), of "evs @ [(CreateTableIfNotExists, Inr r0),
      (Upsert PING_KEY (JObj [(''stamp'', JStr (String_of (Date_now rt)))]), Inr r1)]"]
  by (cases r2) (simp_all add: handler_try_def ensureSchema_def Let_def)

lemma handler_data:
  assumes "\<not> is_diag rt req" and "hasPostgresEnv e" and "method req = ''POST''"
    and "\<not> ping_intent (parseBody rt req)"
    and "sql rt CreateTableIfNotExists d = (Inr r0, d1)"
    and "sql rt (Upsert STORAGE_KEY (kv_of (parseBody rt req))) d1 = (r1, d2)"
  shows "handler_try rt e req (d, evs) =
     (case r1 of Inl err \<Rightarrow> Inl err | Inr ins \<Rightarrow> Inr ok_response,
      (d2, evs @ [(CreateTableIfNotExists, Inr r0),
                  (Upsert STORAGE_KEY (kv_of (parseBody rt req)), r1)]))"
  using assms(1-4) run_sql_eq[OF assms(5), of evs]
    run_sql_eq[OF assms(6), of "evs @ [(CreateTableIfNotExists, Inr r0)]"]
  by (cases r1) (simp_all add: handler_try_def ensureSchema_def Let_def)

lemma handler_other:
  assumes "\<not> is_diag rt req" and "hasPostgresEnv e"
    and "method req \<noteq> ''GET''" and "method req \<noteq> ''POST''"
    and "sql rt CreateTableIfNotExists d = (Inr r0, d1)"
  shows "handler_try rt e req (d, evs) =
     (Inr method_not_allowed_response, (d1, evs @ [(CreateTableIfNotExists, Inr r0)]))"
  using assms(1-4) run_sql_eq[OF assms(5), of evs]
  by (simp add: handler_try_def ensureSchema_def)

lemma handler_try_outcome:
  "(case handler_try rt e req (d, []) of
      (Inl err, w) \<Rightarrow> (\<exists>q pre. snd w = pre @ [(q, Inl err)] \<and> all_resolved pre)
    | (Inr res, w) \<Rightarrow> all_resolved (snd w) \<and> status res \<in> {200, 405, 500, 503})"
proof (cases "is_diag rt req \<or> \<not> hasPostgresEnv e")
  case True
  then show ?thesis
    by (auto simp: handler_try_def response_defs)
next
  case False
  then have nd: "\<not> is_diag rt req" and cfg: "hasPostgresEnv e" by simp_all
  obtain r0 d1 where s0: "sql rt CreateTableIfNotExists d = (r0, d1)" by (metis surj_pair)
  show ?thesis
  proof (cases r0)
    case (Inl err)
    with handler_schema_rejects[OF nd cfg, of d err d1 "[]"] s0 show ?thesis by simp
  next
    case (Inr rows0)
    with s0 have s0': "sql rt CreateTableIfNotExists d = (Inr rows0, d1)" by simp
    consider (get) "method req = ''GET''"
      | (ping) "method req = ''POST''" "ping_intent (parseBody rt req)"
      | (data) "method req = ''POST''" "\<not> ping_intent (parseBody rt req)"
      | (other) "method req \<noteq> ''GET''" "method req \<noteq> ''POST''"
      by blast
    then show ?thesis
    proof cases
      case get
      obtain r1 d2 where s1: "sql rt (SelectValue STORAGE_KEY) d1 = (r1, d2)"
        by (metis surj_pair)
      show ?thesis
        using handler_get[OF nd cfg get s0' s1, of "[]"]
        by (cases r1) (simp_all add: get_response_def Let_def)
    next
      case ping
      obtain r1 d2 where
        s1: "sql rt (Upsert PING_KEY (JObj [(''stamp'', JStr (String_of (Date_now rt)))])) d1
               = (r1, d2)"
        by (metis surj_pair)
      show ?thesis
      proof (cases r1)
        case (Inl err)
        with handler_ping_upsert_rejects[OF nd cfg ping s0', of err d2 "[]"] s1
        show ?thesis by simp
      next
        case (Inr ins)
        with s1 have s1':
          "sql rt (Upsert PING_KEY (JObj [(''stamp'', JStr (String_of (Date_now rt)))])) d1
             = (Inr ins, d2)" by simp
        obtain r2 d3 where s2: "sql rt (SelectValue PING_KEY) d2 = (r2, d3)"
          by (metis surj_pair)
        show ?thesis
          using handler_ping[OF nd cfg ping s0' s1' s2, of "[]"]
          by (cases r2) (simp_all add: ping_response_def Let_def)
      qed
    next
      case data
      obtain r1 d2 where
        s1: "sql rt (Upsert STORAGE_KEY (kv_of (parseBody rt req))) d1 = (r1, d2)"
        by (metis surj_pair)
      show ?thesis
        using handler_data[OF nd cfg data s0' s1, of "[]"]
        by (cases r1) (simp_all add: ok_response_def)
    next
      case other
      show ?thesis
        using handler_other[OF nd cfg other s0', of "[]"]
        by (simp add: method_not_allowed_response_def)
    qed
  qed
qed

lemma error_response_explicit:
  "error_response err =
     \<lparr>status = 500, headers = [(''Cache-Control'', ''no-store'')],
      payload = JObj
        [(''ok'', JBool False),
         (''error'', JStr (case e_message err of
                            None \<Rightarrow> ''server_error''
                          | Some m \<Rightarrow> if m = [] then ''server_error'' else m)),
         (''details'', JObj (object_literal
            [(''code'', string_field (e_code err)),
             (''name'', string_field (e_name err))]))]\<rparr>"
  by (cases "e_message err") (simp_all add: error_response_def no_store_def)

lemmas handler_defs =
  handler_def handler_try_def is_diag_def hasPostgresEnv_def ensureSchema_def run_sql_def
  parseBody_def ping_intent_def kv_of_def first_value_def no_store_def Let_def

subsection \<open>Configuration\<close>

text \<open>
  C6. When the module is loaded with \<^verbatim>\<open>POSTGRES_URL\<close> unset (or empty) and
  \<^verbatim>\<open>DATABASE_URL\<close> set to a non-empty value, that value is afterwards the value of
  \<^verbatim>\<open>POSTGRES_URL\<close>. \<^verbatim>\<open>hasPostgresEnv\<close> is true exactly when one of the five recognized
  variables is non-empty, and stays true after the module was loaded; in particular it is
  true, before and after, when \<^verbatim>\<open>DATABASE_URL\<close> is the variable that is set.
\<close>

theorem fallback_mapping_and_hasPostgresEnv:
  "(\<not> nonempty (e ''POSTGRES_URL'') \<and> e ''DATABASE_URL'' = Some v \<and> v \<noteq> []
      \<longrightarrow> module_init e ''POSTGRES_URL'' = Some v) \<and>
   (hasPostgresEnv e = (\<exists>k \<in> set recognized. nonempty (e k))) \<and>
   ((\<exists>k \<in> set recognized. nonempty (e k)) \<longrightarrow> hasPostgresEnv (module_init e)) \<and>
   (nonempty (e ''DATABASE_URL'') \<longrightarrow> hasPostgresEnv e \<and> hasPostgresEnv (module_init e))"
  by (auto simp: module_init_def hasPostgresEnv_def recognized_def)

theorem fallback_mapping_and_hasPostgresEnv_witness:
  "module_init [''DATABASE_URL'' \<mapsto> ''postgres://app@db.example/app''] ''POSTGRES_URL''
     = Some ''postgres://app@db.example/app'' \<and>
   hasPostgresEnv [''DATABASE_URL'' \<mapsto> ''postgres://app@db.example/app''] \<and>
   hasPostgresEnv (module_init [''DATABASE_URL'' \<mapsto> ''postgres://app@db.example/app''])"
  using fallback_mapping_and_hasPostgresEnv
    [of "[''DATABASE_URL'' \<mapsto> ''postgres://app@db.example/app'']"
        "''postgres://app@db.example/app''"]
  by (simp add: recognized_def)

text \<open>
  C3. A request that is not diagnostic, of any method, in an environment where none of the
  five recognized variables is non-empty, gets status 503 with the body
  \<^verbatim>\<open>{ok:false, error:"pg_not_configured", message:...}\<close>; the database and the log of
  statements are as before, so neither the schema statement nor a query was sent.
\<close>

theorem unconfigured_responds_503_without_database:
  assumes "\<not> is_diag rt req" and "\<forall>k \<in> set recognized. \<not> nonempty (e k)"
  shows "handler rt e req w =
           (\<lparr>status = 503, headers = [(''Cache-Control'', ''no-store'')],
             payload = JObj
               [(''ok'', JBool False), (''error'', JStr ''pg_not_configured''),
                (''message'', JStr not_configured_message)]\<rparr>,
            w)"
proof -
  from assms(2) have "\<not> hasPostgresEnv e" by (simp add: hasPostgresEnv_iff)
  with assms(1) show ?thesis
    by (simp add: handler_unconfigured not_configured_response_def no_store_def)
qed

theorem unconfigured_responds_503_without_database_witness:
  "handler example_rt Map.empty example_get (None, []) =
     (\<lparr>status = 503, headers = [(''Cache-Control'', ''no-store'')],
       payload = JObj
         [(''ok'', JBool False), (''error'', JStr ''pg_not_configured''),
          (''message'', JStr not_configured_message)]\<rparr>,
      (None, []))"
proof -
  have nd: "\<not> is_diag example_rt example_get"
    by (simp add: is_diag_def example_rt_def example_searchParams_def example_JSON_parse_def example_get_def)
  have none: "\<forall>k \<in> set recognized. \<not> nonempty (Map.empty k)"
    by simp
  show ?thesis
    by (rule unconfigured_responds_503_without_database[OF nd none])
qed

subsection \<open>The diagnostic short cut\<close>

text \<open>
  C5. When the URL parses and the first value of its query parameter \<^verbatim>\<open>diag\<close> is \<^verbatim>\<open>1\<close> or
  \<^verbatim>\<open>true\<close>, or when the URL does not parse and \<^verbatim>\<open>diag=1\<close> occurs in it as a substring, the
  handler answers 200 with \<^verbatim>\<open>{ok:true, diag:{...}}\<close>, the flags being those of the
  environment. This holds for every environment, configured or not, every method and
  every database; the database and the log of statements are as before.
\<close>

theorem diag_short_circuits_before_database:
  assumes "(\<exists>ps v. URL_searchParams rt (url req) = Some ps \<and> map_of ps ''diag'' = Some v \<and>
                   (v = ''1'' \<or> v = ''true'')) \<or>
           (URL_searchParams rt (url req) = None \<and> sublist ''diag=1'' (url req))"
  shows "handler rt e req w =
     (\<lparr>status = 200, headers = [(''Cache-Control'', ''no-store'')],
       payload = JObj
         [(''ok'', JBool True),
          (''diag'', JObj
             [(''hasPostgresEnv'', JBool (\<exists>k \<in> set recognized. nonempty (e k))),
              (''has_POSTGRES_URL'', JBool (nonempty (e ''POSTGRES_URL''))),
              (''has_POSTGRES_PRISMA_URL'', JBool (nonempty (e ''POSTGRES_PRISMA_URL''))),
              (''has_POSTGRES_URL_NON_POOLING'',
                 JBool (nonempty (e ''POSTGRES_URL_NON_POOLING''))),
              (''has_POSTGRES_HOST'', JBool (nonempty (e ''POSTGRES_HOST''))),
              (''has_DATABASE_URL'', JBool (nonempty (e ''DATABASE_URL''))),
              (''node'', JStr (process_version rt))])]\<rparr>,
      w)"
proof -
  from assms have "is_diag rt req"
    by (auto simp: is_diag_def indexOf_sublist)
  then show ?thesis
    by (simp add: handler_diag diag_response_def no_store_def hasPostgresEnv_iff)
qed

theorem diag_short_circuits_before_database_witness:
  "status (fst (handler example_rt Map.empty
                  \<lparr>method = ''GET'', url = ''/api/storage?diag=1'', body = None\<rparr> (None, [])))
     = 200 \<and>
   snd (handler example_rt Map.empty
          \<lparr>method = ''GET'', url = ''/api/storage?diag=1'', body = None\<rparr> (None, []))
     = (None, []) \<and>
   status (fst (handler example_rt Map.empty
                  \<lparr>method = ''POST'', url = ''http://[?diag=1'', body = None\<rparr> (None, [])))
     = 200 \<and>
   snd (handler example_rt Map.empty
          \<lparr>method = ''POST'', url = ''http://[?diag=1'', body = None\<rparr> (None, []))
     = (None, [])"
proof -
  have parsed:
    "(\<exists>ps v. URL_searchParams example_rt
                (url \<lparr>method = ''GET'', url = ''/api/storage?diag=1'', body = None\<rparr>) = Some ps \<and>
        map_of ps ''diag'' = Some v \<and> (v = ''1'' \<or> v = ''true'')) \<or>
     (URL_searchParams example_rt
        (url \<lparr>method = ''GET'', url = ''/api/storage?diag=1'', body = None\<rparr>) = None \<and>
      sublist ''diag=1'' (url \<lparr>method = ''GET'', url = ''/api/storage?diag=1'', body = None\<rparr>))"
    by (simp add: example_rt_def example_searchParams_def example_JSON_parse_def)
  have "sublist ''diag=1'' (''http://[?'' @ ''diag=1'' @ [])"
    by (rule sublist_appendI)
  then have malformed:
    "(\<exists>ps v. URL_searchParams example_rt
                (url \<lparr>method = ''POST'', url = ''http://[?diag=1'', body = None\<rparr>) = Some ps \<and>
        map_of ps ''diag'' = Some v \<and> (v = ''1'' \<or> v = ''true'')) \<or>
     (URL_searchParams example_rt
        (url \<lparr>method = ''POST'', url = ''http://[?diag=1'', body = None\<rparr>) = None \<and>
      sublist ''diag=1'' (url \<lparr>method = ''POST'', url = ''http://[?diag=1'', body = None\<rparr>))"
    by (simp add: example_rt_def example_searchParams_def example_JSON_parse_def)
  show ?thesis
    using diag_short_circuits_before_database[OF parsed, of Map.empty "(None, [])"]
      diag_short_circuits_before_database[OF malformed, of Map.empty "(None, [])"]
    by simp
qed

subsection \<open>Reading and writing the stored value\<close>

text \<open>
  C1. In a configured environment and on the database the specification describes, in any
  state, a non-diagnostic POST whose body is \<^verbatim>\<open>{kv:V}\<close> for a JSON object \<open>V\<close>, given as a
  parsed object or as a string that \<^verbatim>\<open>JSON.parse\<close> turns into it, is answered 200
  \<^verbatim>\<open>{ok:true}\<close>, and a non-diagnostic GET that follows it is answered 200
  \<^verbatim>\<open>{ok:true, kv:V}\<close>.
\<close>

theorem post_then_get_round_trip:
  assumes "sql rt1 = pg_sql" and "sql rt2 = pg_sql" and "hasPostgresEnv e"
    and "\<not> is_diag rt1 post" and "method post = ''POST''"
    and "body post = Some (JObj [(''kv'', JObj V)]) \<or>
         (\<exists>s. s \<noteq> [] \<and> body post = Some (JStr s) \<and>
              JSON_parse rt1 s = Some (JObj [(''kv'', JObj V)]))"
    and "\<not> is_diag rt2 get" and "method get = ''GET''"
  shows "fst (handler rt1 e post (d, evs)) =
           \<lparr>status = 200, headers = [(''Cache-Control'', ''no-store'')],
            payload = JObj [(''ok'', JBool True)]\<rparr> \<and>
         fst (handler rt2 e get (snd (handler rt1 e post (d, evs)))) =
           \<lparr>status = 200, headers = [(''Cache-Control'', ''no-store'')],
            payload = JObj [(''ok'', JBool True), (''kv'', JObj V)]\<rparr>"
proof -
  from assms(6) have b: "parseBody rt1 post = JObj [(''kv'', JObj V)]"
    by (auto simp: parseBody_def)
  then have np: "\<not> ping_intent (parseBody rt1 post)"
    and kv: "kv_of (parseBody rt1 post) = JObj V"
    by (simp_all add: ping_intent_def kv_of_def)
  obtain t where s0: "sql rt1 CreateTableIfNotExists d = (Inr [], Some t)"
    using assms(1) by (cases d) simp_all
  have s1: "sql rt1 (Upsert STORAGE_KEY (kv_of (parseBody rt1 post))) (Some t)
              = (Inr [], Some (t(STORAGE_KEY \<mapsto> JObj V)))"
    using assms(1) kv by simp
  have p: "handler rt1 e post (d, evs) =
             (ok_response,
              (Some (t(STORAGE_KEY \<mapsto> JObj V)),
               evs @ [(CreateTableIfNotExists, Inr []),
                      (Upsert STORAGE_KEY (kv_of (parseBody rt1 post)), Inr [])]))"
    using handler_data[OF assms(4,3,5) np s0 s1, of evs] by (simp add: handler_def)
  have s2: "sql rt2 CreateTableIfNotExists (Some (t(STORAGE_KEY \<mapsto> JObj V)))
              = (Inr [], Some (t(STORAGE_KEY \<mapsto> JObj V)))"
    using assms(2) by simp
  have s3: "sql rt2 (SelectValue STORAGE_KEY) (Some (t(STORAGE_KEY \<mapsto> JObj V)))
              = (Inr [\<lparr>row_value = JObj V\<rparr>], Some (t(STORAGE_KEY \<mapsto> JObj V)))"
    using assms(2) by simp
  have g: "fst (handler rt2 e get (snd (handler rt1 e post (d, evs)))) =
             get_response [\<lparr>row_value = JObj V\<rparr>]"
    using handler_get[OF assms(7,3,8) s2 s3] p by (simp add: handler_def)
  show ?thesis
    using p g by (simp add: ok_response_def get_response_def first_value_def no_store_def)
qed

theorem post_then_get_round_trip_witness:
  "fst (handler example_rt example_env
          (example_post (JObj [(''kv'', JObj [(''theme'', JStr ''dark'')])])) (None, [])) =
     \<lparr>status = 200, headers = [(''Cache-Control'', ''no-store'')],
      payload = JObj [(''ok'', JBool True)]\<rparr> \<and>
   fst (handler example_rt example_env example_get
          (snd (handler example_rt example_env
                  (example_post (JObj [(''kv'', JObj [(''theme'', JStr ''dark'')])]))
                  (None, [])))) =
     \<lparr>status = 200, headers = [(''Cache-Control'', ''no-store'')],
      payload = JObj [(''ok'', JBool True), (''kv'', JObj [(''theme'', JStr ''dark'')])]\<rparr>"
proof -
  have pg: "sql example_rt = pg_sql" by (simp add: example_rt_def)
  have cfg: "hasPostgresEnv example_env" by (simp add: hasPostgresEnv_def example_env_def)
  have nd1: "\<not> is_diag example_rt
                 (example_post (JObj [(''kv'', JObj [(''theme'', JStr ''dark'')])]))"
    by (simp add: is_diag_def example_rt_def example_searchParams_def example_JSON_parse_def example_post_def)
  have m1: "method (example_post (JObj [(''kv'', JObj [(''theme'', JStr ''dark'')])])) = ''POST''"
    by (simp add: example_post_def)
  have b1: "body (example_post (JObj [(''kv'', JObj [(''theme'', JStr ''dark'')])])) =
              Some (JObj [(''kv'', JObj [(''theme'', JStr ''dark'')])]) \<or>
            (\<exists>s. s \<noteq> [] \<and>
                 body (example_post (JObj [(''kv'', JObj [(''theme'', JStr ''dark'')])])) =
                   Some (JStr s) \<and>
                 JSON_parse example_rt s = Some (JObj [(''kv'', JObj [(''theme'', JStr ''dark'')])]))"
    by (simp add: example_post_def)
  have nd2: "\<not> is_diag example_rt example_get" by (simp add: is_diag_def example_rt_def example_searchParams_def example_JSON_parse_def example_get_def)
  have m2: "method example_get = ''GET''" by (simp add: example_get_def)
  show ?thesis
    by (rule post_then_get_round_trip[OF pg pg cfg nd1 m1 b1 nd2 m2])
qed

text \<open>
  C4, as amended. For a non-diagnostic POST in a configured environment whose parsed
  body has no truthy \<^verbatim>\<open>ping\<close>, once the schema statement has resolved, the one statement
  that follows is the upsert of the \<open>STORAGE_KEY\<close> row, and its value is \<^verbatim>\<open>body.kv\<close> when
  that is a JSON object or a JSON array, and the empty object otherwise (no \<^verbatim>\<open>kv\<close>, or a
  \<^verbatim>\<open>kv\<close> that is null, a boolean, a number or a string). When the body is a string that
  \<^verbatim>\<open>JSON.parse\<close> rejects, the value written is the empty object and the request is answered
  200 \<^verbatim>\<open>{ok:true}\<close> as soon as the upsert resolves.
\<close>

theorem data_intent_upserts_object_or_array_kv:
  assumes "\<not> is_diag rt req" and "hasPostgresEnv e" and "method req = ''POST''"
    and "\<not> truthy_opt (get_prop (parseBody rt req) ''ping'')"
    and "sql rt CreateTableIfNotExists d = (Inr r0, d1)"
  shows "map fst (snd (snd (handler rt e req (d, [])))) =
           [CreateTableIfNotExists,
            Upsert STORAGE_KEY
              (case get_prop (parseBody rt req) ''kv'' of
                 Some (JObj ps) \<Rightarrow> JObj ps
               | Some (JArr xs) \<Rightarrow> JArr xs
               | _ \<Rightarrow> JObj [])] \<and>
         (\<forall>s r1 d2. body req = Some (JStr s) \<and> s \<noteq> [] \<and> JSON_parse rt s = None \<and>
              sql rt (Upsert STORAGE_KEY (JObj [])) d1 = (Inr r1, d2) \<longrightarrow>
            handler rt e req (d, []) =
              (\<lparr>status = 200, headers = [(''Cache-Control'', ''no-store'')],
                payload = JObj [(''ok'', JBool True)]\<rparr>,
               (d2, [(CreateTableIfNotExists, Inr r0),
                     (Upsert STORAGE_KEY (JObj []), Inr r1)])))"
    (is "?written \<and> ?malformed")
proof
  from assms(4) have np: "\<not> ping_intent (parseBody rt req)"
    by (simp add: ping_intent_iff)
  obtain r1 d2 where
    s1: "sql rt (Upsert STORAGE_KEY (kv_of (parseBody rt req))) d1 = (r1, d2)"
    by (metis surj_pair)
  have "snd (snd (handler rt e req (d, []))) =
          [(CreateTableIfNotExists, Inr r0),
           (Upsert STORAGE_KEY (kv_of (parseBody rt req)), r1)]"
    using handler_data[OF assms(1-3) np assms(5) s1, of "[]"]
    by (cases r1) (simp_all add: handler_def)
  then show ?written
    by (simp add: kv_of_cases)
  show ?malformed
  proof (intro allI impI)
    fix s r1 d2
    assume a: "body req = Some (JStr s) \<and> s \<noteq> [] \<and> JSON_parse rt s = None \<and>
               sql rt (Upsert STORAGE_KEY (JObj [])) d1 = (Inr r1, d2)"
    then have b: "parseBody rt req = JObj []" by (simp add: parseBody_def)
    then have kv: "kv_of (parseBody rt req) = JObj []" by (simp add: kv_of_def)
    from a kv have s1:
      "sql rt (Upsert STORAGE_KEY (kv_of (parseBody rt req))) d1 = (Inr r1, d2)" by simp
    show "handler rt e req (d, []) =
            (\<lparr>status = 200, headers = [(''Cache-Control'', ''no-store'')],
              payload = JObj [(''ok'', JBool True)]\<rparr>,
             (d2, [(CreateTableIfNotExists, Inr r0),
                   (Upsert STORAGE_KEY (JObj []), Inr r1)]))"
      using handler_data[OF assms(1-3) np assms(5) s1, of "[]"] kv
      by (simp add: handler_def ok_response_def no_store_def)
  qed
qed

theorem data_intent_upserts_object_or_array_kv_witness:
  "map fst (snd (snd (handler example_rt example_env (example_post (JStr ''{bad''))
                        (None, [])))) =
     [CreateTableIfNotExists, Upsert STORAGE_KEY (JObj [])] \<and>
   fst (handler example_rt example_env (example_post (JStr ''{bad'')) (None, [])) =
     \<lparr>status = 200, headers = [(''Cache-Control'', ''no-store'')],
      payload = JObj [(''ok'', JBool True)]\<rparr>"
proof -
  have nd: "\<not> is_diag example_rt (example_post (JStr ''{bad''))"
    by (simp add: is_diag_def example_rt_def example_searchParams_def example_JSON_parse_def example_post_def)
  have cfg: "hasPostgresEnv example_env" by (simp add: hasPostgresEnv_def example_env_def)
  have m: "method (example_post (JStr ''{bad'')) = ''POST''" by (simp add: example_post_def)
  have b: "parseBody example_rt (example_post (JStr ''{bad'')) = JObj []"
    by (simp add: parseBody_def example_rt_def example_searchParams_def example_JSON_parse_def example_post_def)
  then have np: "\<not> truthy_opt (get_prop (parseBody example_rt (example_post (JStr ''{bad'')))
                                   ''ping'')"
    by simp
  have s0: "sql example_rt CreateTableIfNotExists None = (Inr [], Some Map.empty)"
    by (simp add: example_rt_def)
  have a: "body (example_post (JStr ''{bad'')) = Some (JStr ''{bad'') \<and> ''{bad'' \<noteq> [] \<and>
           JSON_parse example_rt ''{bad'' = None \<and>
           sql example_rt (Upsert STORAGE_KEY (JObj [])) (Some Map.empty) =
             (Inr [], Some [STORAGE_KEY \<mapsto> JObj []])"
    by (simp add: example_rt_def example_searchParams_def example_JSON_parse_def example_post_def)
  note th = data_intent_upserts_object_or_array_kv[OF nd cfg m np s0]
  from th have w: "map fst (snd (snd (handler example_rt example_env
                     (example_post (JStr ''{bad'')) (None, [])))) =
     [CreateTableIfNotExists, Upsert STORAGE_KEY (JObj [])]"
    using b by simp
  from th a have "handler example_rt example_env (example_post (JStr ''{bad'')) (None, []) =
     (\<lparr>status = 200, headers = [(''Cache-Control'', ''no-store'')],
       payload = JObj [(''ok'', JBool True)]\<rparr>,
      (Some [STORAGE_KEY \<mapsto> JObj []],
       [(CreateTableIfNotExists, Inr []), (Upsert STORAGE_KEY (JObj []), Inr [])]))"
    by blast
  with w show ?thesis by simp
qed

text \<open>
  C4 as stated fails where \<^verbatim>\<open>kv\<close> is an array: \<^verbatim>\<open>typeof\<close> of an array is \<^verbatim>\<open>'object'\<close>, so
  for the body \<^verbatim>\<open>{kv:[1,2]}\<close> the handler upserts the array, not the empty object.
\<close>

theorem array_kv_is_upserted_counterexample:
  "map fst (snd (snd (handler example_rt example_env
                        (example_post (JObj [(''kv'', JArr [JNum 1, JNum 2])])) (None, [])))) =
     [CreateTableIfNotExists, Upsert STORAGE_KEY (JArr [JNum 1, JNum 2])] \<and>
   map fst (snd (snd (handler example_rt example_env
                        (example_post (JObj [(''kv'', JArr [JNum 1, JNum 2])])) (None, [])))) \<noteq>
     [CreateTableIfNotExists, Upsert STORAGE_KEY (JObj [])]"
  by (simp add: handler_defs example_rt_def example_searchParams_def example_JSON_parse_def example_env_def example_post_def ok_response_def)

subsection \<open>The ping check\<close>

text \<open>
  C2, as amended. For a non-diagnostic POST in a configured environment whose parsed body
  has a truthy \<^verbatim>\<open>ping\<close>. The stamp is \<^verbatim>\<open>String(Date.now())\<close>, the decimal numeral of the
  clock value: read back as a number it is that value. The handler sends the schema
  statement first. Once that has resolved it upserts \<^verbatim>\<open>{stamp}\<close> under \<open>PING_KEY\<close>; once
  the upsert has resolved it reads the \<open>PING_KEY\<close> row, nothing in between; and once the
  read has resolved it answers 200 \<^verbatim>\<open>{ok:true}\<close> if the stamp read back equals the stamp
  written and 500 \<^verbatim>\<open>{ok:false}\<close> if not. When one of the three statements rejects, no
  later statement is sent and the answer is the 500 of the outer \<^verbatim>\<open>catch\<close>, with the error
  in its body. So the status is 200 only when the three statements resolved and the
  stamps are equal, and 500 in every other case.
\<close>

theorem ping_write_then_read_check:
  assumes "\<not> is_diag rt req" and "hasPostgresEnv e" and "method req = ''POST''"
    and "truthy_opt (get_prop (parseBody rt req) ''ping'')"
  shows
    "number_of (String_of (Date_now rt)) = Date_now rt \<and>
     (\<forall>err d1.
        sql rt CreateTableIfNotExists d = (Inl err, d1) \<longrightarrow>
        handler rt e req (d, []) =
          (error_response err, (d1, [(CreateTableIfNotExists, Inl err)]))) \<and>
     (\<forall>r0 d1 err d2.
        sql rt CreateTableIfNotExists d = (Inr r0, d1) \<and>
        sql rt (Upsert PING_KEY (JObj [(''stamp'', JStr (String_of (Date_now rt)))])) d1
          = (Inl err, d2) \<longrightarrow>
        handler rt e req (d, []) =
          (error_response err,
           (d2, [(CreateTableIfNotExists, Inr r0),
                 (Upsert PING_KEY (JObj [(''stamp'', JStr (String_of (Date_now rt)))]), Inl err)]))) \<and>
     (\<forall>r0 d1 r1 d2 err d3.
        sql rt CreateTableIfNotExists d = (Inr r0, d1) \<and>
        sql rt (Upsert PING_KEY (JObj [(''stamp'', JStr (String_of (Date_now rt)))])) d1
          = (Inr r1, d2) \<and>
        sql rt (SelectValue PING_KEY) d2 = (Inl err, d3) \<longrightarrow>
        handler rt e req (d, []) =
          (error_response err,
           (d3, [(CreateTableIfNotExists, Inr r0),
                 (Upsert PING_KEY (JObj [(''stamp'', JStr (String_of (Date_now rt)))]), Inr r1),
                 (SelectValue PING_KEY, Inl err)]))) \<and>
     (\<forall>r0 d1 r1 d2 rows d3.
        sql rt CreateTableIfNotExists d = (Inr r0, d1) \<and>
        sql rt (Upsert PING_KEY (JObj [(''stamp'', JStr (String_of (Date_now rt)))])) d1
          = (Inr r1, d2) \<and>
        sql rt (SelectValue PING_KEY) d2 = (Inr rows, d3) \<longrightarrow>
        handler rt e req (d, []) =
          (\<lparr>status =
              (if reread_stamp rows = Some (JStr (String_of (Date_now rt))) then 200 else 500),
            headers = [(''Cache-Control'', ''no-store'')],
            payload = JObj
              [(''ok'', JBool (reread_stamp rows = Some (JStr (String_of (Date_now rt)))))]\<rparr>,
           (d3, [(CreateTableIfNotExists, Inr r0),
                 (Upsert PING_KEY (JObj [(''stamp'', JStr (String_of (Date_now rt)))]), Inr r1),
                 (SelectValue PING_KEY, Inr rows)]))) \<and>
     (status (fst (handler rt e req (d, []))) = 200 \<longrightarrow>
        (\<exists>r0 d1 r1 d2 rows d3.
           sql rt CreateTableIfNotExists d = (Inr r0, d1) \<and>
           sql rt (Upsert PING_KEY (JObj [(''stamp'', JStr (String_of (Date_now rt)))])) d1
             = (Inr r1, d2) \<and>
           sql rt (SelectValue PING_KEY) d2 = (Inr rows, d3) \<and>
           reread_stamp rows = Some (JStr (String_of (Date_now rt))))) \<and>
     (status (fst (handler rt e req (d, []))) = 200 \<or>
      status (fst (handler rt e req (d, []))) = 500)"
    (is "?stamp \<and> ?schema_rejects \<and> ?upsert_rejects \<and> ?read_rejects \<and> ?resolved \<and>
         ?only_if \<and> ?status")
proof -
  from assms(4) have pi: "ping_intent (parseBody rt req)"
    by (simp add: ping_intent_iff)
  have st: "status (error_response err) = 500" for err
    by (simp add: error_response_def)
  have ?stamp by (rule number_of_String_of)
  moreover have ?schema_rejects
  proof (intro allI impI)
    fix err d1
    assume s0: "sql rt CreateTableIfNotExists d = (Inl err, d1)"
    show "handler rt e req (d, []) =
            (error_response err, (d1, [(CreateTableIfNotExists, Inl err)]))"
      using handler_schema_rejects[OF assms(1,2) s0, of "[]"] by (simp add: handler_def)
  qed
  moreover have ?upsert_rejects
  proof (intro allI impI, elim conjE)
    fix r0 d1 err d2
    assume s0: "sql rt CreateTableIfNotExists d = (Inr r0, d1)"
      and s1: "sql rt (Upsert PING_KEY (JObj [(''stamp'', JStr (String_of (Date_now rt)))])) d1
                 = (Inl err, d2)"
    show "handler rt e req (d, []) =
            (error_response err,
             (d2, [(CreateTableIfNotExists, Inr r0),
                   (Upsert PING_KEY (JObj [(''stamp'', JStr (String_of (Date_now rt)))]), Inl err)]))"
      using handler_ping_upsert_rejects[OF assms(1-3) pi s0 s1, of "[]"]
      by (simp add: handler_def)
  qed
  moreover have ?read_rejects
  proof (intro allI impI, elim conjE)
    fix r0 d1 r1 d2 err d3
    assume s0: "sql rt CreateTableIfNotExists d = (Inr r0, d1)"
      and s1: "sql rt (Upsert PING_KEY (JObj [(''stamp'', JStr (String_of (Date_now rt)))])) d1
                 = (Inr r1, d2)"
      and s2: "sql rt (SelectValue PING_KEY) d2 = (Inl err, d3)"
    show "handler rt e req (d, []) =
            (error_response err,
             (d3, [(CreateTableIfNotExists, Inr r0),
                   (Upsert PING_KEY (JObj [(''stamp'', JStr (String_of (Date_now rt)))]), Inr r1),
                   (SelectValue PING_KEY, Inl err)]))"
      using handler_ping[OF assms(1-3) pi s0 s1 s2, of "[]"]
      by (simp add: handler_def)
  qed
  moreover have ?resolved
  proof (intro allI impI, elim conjE)
    fix r0 d1 r1 d2 rows d3
    assume s0: "sql rt CreateTableIfNotExists d = (Inr r0, d1)"
      and s1: "sql rt (Upsert PING_KEY (JObj [(''stamp'', JStr (String_of (Date_now rt)))])) d1
                 = (Inr r1, d2)"
      and s2: "sql rt (SelectValue PING_KEY) d2 = (Inr rows, d3)"
    show "handler rt e req (d, []) =
          (\<lparr>status =
              (if reread_stamp rows = Some (JStr (String_of (Date_now rt))) then 200 else 500),
            headers = [(''Cache-Control'', ''no-store'')],
            payload = JObj
              [(''ok'', JBool (reread_stamp rows = Some (JStr (String_of (Date_now rt)))))]\<rparr>,
           (d3, [(CreateTableIfNotExists, Inr r0),
                 (Upsert PING_KEY (JObj [(''stamp'', JStr (String_of (Date_now rt)))]), Inr r1),
                 (SelectValue PING_KEY, Inr rows)]))"
      using handler_ping[OF assms(1-3) pi s0 s1 s2, of "[]"]
      by (simp add: handler_def ping_response_def ping_ok_iff no_store_def)
  qed
  moreover have "?only_if \<and> ?status"
  proof -
    obtain r0 d1 where s0: "sql rt CreateTableIfNotExists d = (r0, d1)"
      by (metis surj_pair)
    show ?thesis
    proof (cases r0)
      case (Inl err)
      with handler_schema_rejects[OF assms(1,2), of d err d1 "[]"] s0 st
      show ?thesis by (simp add: handler_def)
    next
      case (Inr rows0)
      with s0 have s0': "sql rt CreateTableIfNotExists d = (Inr rows0, d1)" by simp
      obtain r1 d2 where
        s1: "sql rt (Upsert PING_KEY (JObj [(''stamp'', JStr (String_of (Date_now rt)))])) d1
               = (r1, d2)"
        by (metis surj_pair)
      show ?thesis
      proof (cases r1)
        case (Inl err)
        with handler_ping_upsert_rejects[OF assms(1-3) pi s0', of err d2 "[]"] s1 st
        show ?thesis by (simp add: handler_def)
      next
        case (Inr ins)
        with s1 have s1':
          "sql rt (Upsert PING_KEY (JObj [(''stamp'', JStr (String_of (Date_now rt)))])) d1
             = (Inr ins, d2)" by simp
        obtain r2 d3 where s2: "sql rt (SelectValue PING_KEY) d2 = (r2, d3)"
          by (metis surj_pair)
        show ?thesis
        proof (cases r2)
          case (Inl err)
          with handler_ping[OF assms(1-3) pi s0' s1' s2, of "[]"] st
          show ?thesis by (simp add: handler_def)
        next
          case (Inr rows)
          with handler_ping[OF assms(1-3) pi s0' s1' s2, of "[]"]
          have "status (fst (handler rt e req (d, []))) =
                  (if reread_stamp rows = Some (JStr (String_of (Date_now rt)))
                   then 200 else 500)"
            by (simp add: handler_def ping_response_def ping_ok_iff)
          with s0' s1' s2 Inr show ?thesis
            by (cases "reread_stamp rows = Some (JStr (String_of (Date_now rt)))") auto
        qed
      qed
    qed
  qed
  ultimately show ?thesis by blast
qed

theorem ping_write_then_read_check_witness:
  "number_of (String_of (Date_now example_rt)) = 1700000000123 \<and>
   handler example_rt example_env (example_post (JObj [(''ping'', JBool True)])) (None, []) =
     (\<lparr>status = 200, headers = [(''Cache-Control'', ''no-store'')],
       payload = JObj [(''ok'', JBool True)]\<rparr>,
      (Some [PING_KEY \<mapsto> JObj [(''stamp'', JStr ''1700000000123'')]],
       [(CreateTableIfNotExists, Inr []),
        (Upsert PING_KEY (JObj [(''stamp'', JStr ''1700000000123'')]), Inr []),
        (SelectValue PING_KEY,
         Inr [\<lparr>row_value = JObj [(''stamp'', JStr ''1700000000123'')]\<rparr>])])) \<and>
   fst (handler stale_rt example_env (example_post (JObj [(''ping'', JBool True)])) (None, [])) =
     \<lparr>status = 500, headers = [(''Cache-Control'', ''no-store'')],
      payload = JObj [(''ok'', JBool False)]\<rparr>"
proof -
  have stamp: "String_of 1700000000123 = ''1700000000123''"
    by (simp add: String_of_def digits.simps)
  have nd: "\<not> is_diag example_rt (example_post (JObj [(''ping'', JBool True)]))"
    by (simp add: is_diag_def example_rt_def example_searchParams_def example_post_def)
  have nd': "\<not> is_diag stale_rt (example_post (JObj [(''ping'', JBool True)]))"
    by (simp add: is_diag_def example_rt_def example_searchParams_def example_post_def
        stale_rt_def)
  have cfg: "hasPostgresEnv example_env" by (simp add: hasPostgresEnv_def example_env_def)
  have m: "method (example_post (JObj [(''ping'', JBool True)])) = ''POST''"
    by (simp add: example_post_def)
  have pi: "truthy_opt (get_prop (parseBody example_rt
              (example_post (JObj [(''ping'', JBool True)]))) ''ping'')"
    by (simp add: parseBody_def example_post_def)
  have pi': "truthy_opt (get_prop (parseBody stale_rt
              (example_post (JObj [(''ping'', JBool True)]))) ''ping'')"
    by (simp add: parseBody_def example_post_def)
  have s: "sql example_rt CreateTableIfNotExists None = (Inr [], Some Map.empty) \<and>
           sql example_rt
             (Upsert PING_KEY (JObj [(''stamp'', JStr (String_of (Date_now example_rt)))]))
             (Some Map.empty) =
             (Inr [], Some [PING_KEY \<mapsto> JObj [(''stamp'', JStr ''1700000000123'')]]) \<and>
           sql example_rt (SelectValue PING_KEY)
             (Some [PING_KEY \<mapsto> JObj [(''stamp'', JStr ''1700000000123'')]]) =
             (Inr [\<lparr>row_value = JObj [(''stamp'', JStr ''1700000000123'')]\<rparr>],
              Some [PING_KEY \<mapsto> JObj [(''stamp'', JStr ''1700000000123'')]])"
    by (simp add: example_rt_def stamp)
  have s': "sql stale_rt CreateTableIfNotExists None = (Inr [], Some Map.empty) \<and>
           sql stale_rt
             (Upsert PING_KEY (JObj [(''stamp'', JStr (String_of (Date_now stale_rt)))]))
             (Some Map.empty) =
             (Inr [], Some [PING_KEY \<mapsto> JObj [(''stamp'', JStr ''1700000000123'')]]) \<and>
           sql stale_rt (SelectValue PING_KEY)
             (Some [PING_KEY \<mapsto> JObj [(''stamp'', JStr ''1700000000123'')]]) =
             (Inr [\<lparr>row_value = JObj [(''stamp'', JStr ''1600000000000'')]\<rparr>],
              Some [PING_KEY \<mapsto> JObj [(''stamp'', JStr ''1700000000123'')]])"
    by (simp add: example_rt_def stale_rt_def stale_sql_def stamp)
  note th = ping_write_then_read_check[OF nd cfg m pi, of None]
  note th' = ping_write_then_read_check[OF nd' cfg m pi', of None]
  from th have clock: "number_of (String_of (Date_now example_rt)) = 1700000000123"
    by (simp add: example_rt_def)
  from th[THEN conjunct2, THEN conjunct2, THEN conjunct2, THEN conjunct2, THEN conjunct1,
          rule_format, OF s]
  have fresh: "handler example_rt example_env (example_post (JObj [(''ping'', JBool True)]))
                 (None, []) =
     (\<lparr>status = 200, headers = [(''Cache-Control'', ''no-store'')],
       payload = JObj [(''ok'', JBool True)]\<rparr>,
      (Some [PING_KEY \<mapsto> JObj [(''stamp'', JStr ''1700000000123'')]],
       [(CreateTableIfNotExists, Inr []),
        (Upsert PING_KEY (JObj [(''stamp'', JStr ''1700000000123'')]), Inr []),
        (SelectValue PING_KEY,
         Inr [\<lparr>row_value = JObj [(''stamp'', JStr ''1700000000123'')]\<rparr>])]))"
    by (simp add: reread_stamp_def example_rt_def stamp)
  from th'[THEN conjunct2, THEN conjunct2, THEN conjunct2, THEN conjunct2, THEN conjunct1,
           rule_format, OF s']
  have stale: "fst (handler stale_rt example_env (example_post (JObj [(''ping'', JBool True)]))
                      (None, [])) =
     \<lparr>status = 500, headers = [(''Cache-Control'', ''no-store'')],
      payload = JObj [(''ok'', JBool False)]\<rparr>"
    by (simp add: reread_stamp_def example_rt_def stale_rt_def stamp)
  from clock fresh stale show ?thesis by simp
qed

text \<open>
  C2 as stated fails when a statement rejects. A POST with the body \<^verbatim>\<open>{ping:true}\<close> in a
  configured environment whose database cannot be reached: the schema statement rejects,
  so no stamp is written and no row is read, and the answer is the 500 of the outer
  \<^verbatim>\<open>catch\<close>, whose body is not \<^verbatim>\<open>{ok:false}\<close>.
\<close>

theorem ping_on_unreachable_database_counterexample:
  "method (example_post (JObj [(''ping'', JBool True)])) = ''POST'' \<and>
   truthy_opt (get_prop (parseBody unreachable_rt
                 (example_post (JObj [(''ping'', JBool True)]))) ''ping'') \<and>
   hasPostgresEnv example_env \<and>
   snd (snd (handler unreachable_rt example_env
               (example_post (JObj [(''ping'', JBool True)])) (None, []))) =
     [(CreateTableIfNotExists, Inl connection_refused)] \<and>
   status (fst (handler unreachable_rt example_env
                  (example_post (JObj [(''ping'', JBool True)])) (None, []))) = 500 \<and>
   payload (fst (handler unreachable_rt example_env
                   (example_post (JObj [(''ping'', JBool True)])) (None, []))) \<noteq>
     JObj [(''ok'', JBool False)]"
  by (simp add: handler_defs example_rt_def example_searchParams_def example_JSON_parse_def
      example_env_def example_post_def unreachable_rt_def connection_refused_def
      error_response_def)

text \<open>
  C9. For a POST whose parsed body has a truthy \<^verbatim>\<open>ping\<close>, whatever else the body holds
  (a \<^verbatim>\<open>kv\<close> too), every statement the handler sends is the schema statement, the upsert
  of the \<open>PING_KEY\<close> row or the read of the \<open>PING_KEY\<close> row: the \<open>STORAGE_KEY\<close> row is
  neither written nor read. On the database of the specification the \<open>STORAGE_KEY\<close> row
  is afterwards what it was before.
\<close>

theorem ping_leaves_storage_row_unchanged:
  assumes "method req = ''POST''" and "truthy_opt (get_prop (parseBody rt req) ''ping'')"
  shows "(\<forall>ev \<in> set (snd (snd (handler rt e req (d, [])))).
            fst ev = CreateTableIfNotExists \<or>
            fst ev = Upsert PING_KEY (JObj [(''stamp'', JStr (String_of (Date_now rt)))]) \<or>
            fst ev = SelectValue PING_KEY) \<and>
         (sql rt = pg_sql \<longrightarrow>
            storage_row (fst (snd (handler rt e req (d, [])))) = storage_row d)"
    (is "?only_ping \<and> ?frame")
proof
  from assms(2) have pi: "ping_intent (parseBody rt req)"
    by (simp add: ping_intent_iff)
  show ?only_ping
    using assms(1) pi
    by (auto simp: handler_def handler_try_def ensureSchema_def run_sql_def Let_def
        split: prod.splits sum.splits if_splits)
  show ?frame
  proof
    assume pg: "sql rt = pg_sql"
    show "storage_row (fst (snd (handler rt e req (d, [])))) = storage_row d"
      using assms(1) pi pg STORAGE_KEY_neq_PING_KEY
      by (cases d)
         (auto simp: handler_def handler_try_def ensureSchema_def run_sql_def Let_def
            storage_row_def)
  qed
qed

theorem ping_leaves_storage_row_unchanged_witness:
  "map fst (snd (snd (handler example_rt example_env
       (example_post (JObj [(''ping'', JBool True), (''kv'', JObj [(''theme'', JStr ''dark'')])]))
       (Some [STORAGE_KEY \<mapsto> JObj [(''theme'', JStr ''light'')]], [])))) =
     [CreateTableIfNotExists,
      Upsert PING_KEY (JObj [(''stamp'', JStr (String_of (Date_now example_rt)))]),
      SelectValue PING_KEY] \<and>
   storage_row (fst (snd (handler example_rt example_env
       (example_post (JObj [(''ping'', JBool True), (''kv'', JObj [(''theme'', JStr ''dark'')])]))
       (Some [STORAGE_KEY \<mapsto> JObj [(''theme'', JStr ''light'')]], [])))) =
     Some (JObj [(''theme'', JStr ''light'')])"
proof -
  have m: "method (example_post
             (JObj [(''ping'', JBool True), (''kv'', JObj [(''theme'', JStr ''dark'')])])) = ''POST''"
    by (simp add: example_post_def)
  have pi: "truthy_opt (get_prop (parseBody example_rt (example_post
              (JObj [(''ping'', JBool True), (''kv'', JObj [(''theme'', JStr ''dark'')])])))
              ''ping'')"
    by (simp add: parseBody_def example_post_def)
  have pg: "sql example_rt = pg_sql" by (simp add: example_rt_def)
  from ping_leaves_storage_row_unchanged[OF m pi, of example_env
         "Some [STORAGE_KEY \<mapsto> JObj [(''theme'', JStr ''light'')]]"] pg
  have "storage_row (fst (snd (handler example_rt example_env
       (example_post (JObj [(''ping'', JBool True), (''kv'', JObj [(''theme'', JStr ''dark'')])]))
       (Some [STORAGE_KEY \<mapsto> JObj [(''theme'', JStr ''light'')]], [])))) =
     storage_row (Some [STORAGE_KEY \<mapsto> JObj [(''theme'', JStr ''light'')]])"
    by blast
  moreover have "map fst (snd (snd (handler example_rt example_env
       (example_post (JObj [(''ping'', JBool True), (''kv'', JObj [(''theme'', JStr ''dark'')])]))
       (Some [STORAGE_KEY \<mapsto> JObj [(''theme'', JStr ''light'')]], [])))) =
     [CreateTableIfNotExists,
      Upsert PING_KEY (JObj [(''stamp'', JStr (String_of (Date_now example_rt)))]),
      SelectValue PING_KEY]"
    by (simp add: handler_defs example_rt_def example_searchParams_def example_JSON_parse_def example_env_def example_post_def ping_response_def)
  ultimately show ?thesis by (simp add: storage_row_def)
qed

subsection \<open>Failures, and the methods that are not served\<close>

text \<open>
  C7, as amended. A rejection of the schema statement or of a query is caught by the outer
  \<^verbatim>\<open>catch\<close>: when a statement of the request rejected with \<open>err\<close>, the answer is 500 with
  \<^verbatim>\<open>{ok:false, error:<message or "server_error">, details:{code, name}}\<close>, where a
  property of \<^verbatim>\<open>details\<close> is left out when the error has no such field. Nothing else
  reaches that \<^verbatim>\<open>catch\<close>: when every statement of the request resolved, the body of the
  \<^verbatim>\<open>try\<close> returned its response, whatever the URL and the body of the request were (a
  text that fails to parse is dealt with where it is parsed). Every request gets a
  response, with status 200, 405, 500 or 503.
\<close>

theorem statement_failures_become_500:
  "(\<forall>q err. (q, Inl err) \<in> set (snd (snd (handler rt e req (d, [])))) \<longrightarrow>
      fst (handler rt e req (d, [])) =
        \<lparr>status = 500, headers = [(''Cache-Control'', ''no-store'')],
         payload = JObj
           [(''ok'', JBool False),
            (''error'', JStr (case e_message err of
                               None \<Rightarrow> ''server_error''
                             | Some m \<Rightarrow> if m = [] then ''server_error'' else m)),
            (''details'', JObj (object_literal
               [(''code'', string_field (e_code err)),
                (''name'', string_field (e_name err))]))]\<rparr>) \<and>
   (all_resolved (snd (snd (handler rt e req (d, [])))) \<longrightarrow>
      (\<exists>res. fst (handler_try rt e req (d, [])) = Inr res)) \<and>
   status (fst (handler rt e req (d, []))) \<in> {200, 405, 500, 503}"
proof -
  obtain r d' evs where t: "handler_try rt e req (d, []) = (r, (d', evs))"
    by (metis surj_pair)
  show ?thesis
  proof (cases r)
    case (Inl err)
    with handler_try_outcome[of rt e req d] t obtain q pre
      where evs: "evs = pre @ [(q, Inl err)]" and pre: "all_resolved pre" by auto
    have h: "handler rt e req (d, []) = (error_response err, (d', evs))"
      using t Inl by (simp add: handler_def)
    have only: "err' = err" if "(q', Inl err') \<in> set evs" for q' err'
      using that evs all_resolved_no_Inl[OF pre] by auto
    have st: "status (error_response err) = 500" by (simp add: error_response_def)
    show ?thesis
    proof (intro conjI allI impI)
      fix q' err'
      assume "(q', Inl err') \<in> set (snd (snd (handler rt e req (d, []))))"
      then have "err' = err" using only h by simp
      then show "fst (handler rt e req (d, [])) =
        \<lparr>status = 500, headers = [(''Cache-Control'', ''no-store'')],
         payload = JObj
           [(''ok'', JBool False),
            (''error'', JStr (case e_message err' of
                               None \<Rightarrow> ''server_error''
                             | Some m \<Rightarrow> if m = [] then ''server_error'' else m)),
            (''details'', JObj (object_literal
               [(''code'', string_field (e_code err')),
                (''name'', string_field (e_name err'))]))]\<rparr>"
        using h by (simp add: error_response_explicit)
    next
      assume "all_resolved (snd (snd (handler rt e req (d, []))))"
      then have False using h evs by simp
      then show "\<exists>res. fst (handler_try rt e req (d, [])) = Inr res" ..
    next
      show "status (fst (handler rt e req (d, []))) \<in> {200, 405, 500, 503}"
        using h st by simp
    qed
  next
    case (Inr res)
    with handler_try_outcome[of rt e req d] t have ok: "all_resolved evs"
      and st: "status res \<in> {200, 405, 500, 503}" by auto
    have h: "handler rt e req (d, []) = (res, (d', evs))"
      using t Inr by (simp add: handler_def)
    show ?thesis
    proof (intro conjI allI impI)
      fix q' err'
      assume "(q', Inl err') \<in> set (snd (snd (handler rt e req (d, []))))"
      then have False using all_resolved_no_Inl[OF ok] h by simp
      then show "fst (handler rt e req (d, [])) =
        \<lparr>status = 500, headers = [(''Cache-Control'', ''no-store'')],
         payload = JObj
           [(''ok'', JBool False),
            (''error'', JStr (case e_message err' of
                               None \<Rightarrow> ''server_error''
                             | Some m \<Rightarrow> if m = [] then ''server_error'' else m)),
            (''details'', JObj (object_literal
               [(''code'', string_field (e_code err')),
                (''name'', string_field (e_name err'))]))]\<rparr>" ..
    next
      show "\<exists>res. fst (handler_try rt e req (d, [])) = Inr res" using t Inr by simp
    next
      show "status (fst (handler rt e req (d, []))) \<in> {200, 405, 500, 503}"
        using h st by simp
    qed
  qed
qed

theorem statement_failures_become_500_witness:
  "fst (handler unreachable_rt example_env example_get (None, [])) =
     \<lparr>status = 500, headers = [(''Cache-Control'', ''no-store'')],
      payload = JObj
        [(''ok'', JBool False),
         (''error'', JStr ''connect ECONNREFUSED''),
         (''details'', JObj [(''code'', JStr ''ECONNREFUSED''), (''name'', JStr ''Error'')])]\<rparr>"
proof -
  have "snd (snd (handler unreachable_rt example_env example_get (None, []))) =
          [(CreateTableIfNotExists, Inl connection_refused)]"
    by (simp add: handler_def handler_try_def is_diag_def hasPostgresEnv_def ensureSchema_def
        run_sql_def example_rt_def example_searchParams_def example_env_def example_get_def
        unreachable_rt_def)
  then have mem: "(CreateTableIfNotExists, Inl connection_refused) \<in>
                    set (snd (snd (handler unreachable_rt example_env example_get (None, []))))"
    by simp
  from statement_failures_become_500[of unreachable_rt example_env example_get None,
         THEN conjunct1, rule_format, OF mem]
  show ?thesis by (simp add: connection_refused_def)
qed

text \<open>
  C7 as stated fails for a failure of parsing: \<^verbatim>\<open>JSON.parse\<close> throws on the body \<^verbatim>\<open>{bad\<close>,
  \<^verbatim>\<open>parseBody\<close> catches that itself, and the request is answered 200, not 500.
\<close>

theorem malformed_body_is_answered_200_counterexample:
  "JSON_parse example_rt ''{bad'' = None \<and>
   status (fst (handler example_rt example_env (example_post (JStr ''{bad'')) (None, []))) = 200 \<and>
   status (fst (handler example_rt example_env (example_post (JStr ''{bad'')) (None, []))) \<noteq> 500"
  by (simp add: handler_defs example_rt_def example_searchParams_def example_JSON_parse_def example_env_def example_post_def ok_response_def)

text \<open>
  C8, as amended. For a non-diagnostic request in a configured environment whose method
  is neither GET nor POST, once the schema statement has resolved, the answer is 405 with
  the header \<^verbatim>\<open>Allow: GET, POST\<close> and the body \<^verbatim>\<open>{ok:false, error:"method_not_allowed"}\<close>,
  and the schema statement is the only statement sent.
\<close>

theorem other_method_405_after_schema:
  assumes "\<not> is_diag rt req" and "hasPostgresEnv e"
    and "method req \<noteq> ''GET''" and "method req \<noteq> ''POST''"
    and "sql rt CreateTableIfNotExists d = (Inr r0, d1)"
  shows "handler rt e req (d, []) =
     (\<lparr>status = 405, headers = [(''Allow'', ''GET, POST'')],
       payload = JObj [(''ok'', JBool False), (''error'', JStr ''method_not_allowed'')]\<rparr>,
      (d1, [(CreateTableIfNotExists, Inr r0)]))"
  using handler_other[OF assms, of "[]"]
  by (simp add: handler_def method_not_allowed_response_def)

theorem other_method_405_after_schema_witness:
  "handler example_rt example_env example_delete (None, []) =
     (\<lparr>status = 405, headers = [(''Allow'', ''GET, POST'')],
       payload = JObj [(''ok'', JBool False), (''error'', JStr ''method_not_allowed'')]\<rparr>,
      (Some Map.empty, [(CreateTableIfNotExists, Inr [])]))"
proof -
  have nd: "\<not> is_diag example_rt example_delete" by (simp add: is_diag_def example_rt_def example_searchParams_def example_JSON_parse_def example_delete_def)
  have cfg: "hasPostgresEnv example_env" by (simp add: hasPostgresEnv_def example_env_def)
  have m1: "method example_delete \<noteq> ''GET''" by (simp add: example_delete_def)
  have m2: "method example_delete \<noteq> ''POST''" by (simp add: example_delete_def)
  have s0: "sql example_rt CreateTableIfNotExists None = (Inr [], Some Map.empty)"
    by (simp add: example_rt_def)
  show ?thesis
    by (rule other_method_405_after_schema[OF nd cfg m1 m2 s0])
qed

text \<open>
  C8 as stated fails when the schema statement rejects: a DELETE in a configured
  environment whose database cannot be reached is answered 500, not 405.
\<close>

theorem other_method_500_when_schema_rejects_counterexample:
  "\<not> is_diag unreachable_rt example_delete \<and> hasPostgresEnv example_env \<and>
   method example_delete = ''DELETE'' \<and>
   status (fst (handler unreachable_rt example_env example_delete (None, []))) = 500 \<and>
   status (fst (handler unreachable_rt example_env example_delete (None, []))) \<noteq> 405"
  by (simp add: handler_defs example_rt_def example_searchParams_def example_JSON_parse_def example_env_def example_delete_def unreachable_rt_def connection_refused_def error_response_def)

text \<open>
  C10. For a non-diagnostic request in a configured environment, whatever its method, the
  first statement sent is the schema statement; and when that statement rejects, it is
  the only statement sent and the answer is the 500 of the outer \<^verbatim>\<open>catch\<close>, for a DELETE as
  for a GET or a POST.
\<close>

theorem ensureSchema_runs_before_dispatch:
  assumes "\<not> is_diag rt req" and "hasPostgresEnv e"
  shows "(\<exists>evs. snd (snd (handler rt e req (d, []))) =
            (CreateTableIfNotExists, fst (sql rt CreateTableIfNotExists d)) # evs) \<and>
         (\<forall>err d1. sql rt CreateTableIfNotExists d = (Inl err, d1) \<longrightarrow>
            handler rt e req (d, []) =
              (error_response err, (d1, [(CreateTableIfNotExists, Inl err)])) \<and>
            status (error_response err) = 500)"
    (is "?first \<and> ?rejects")
proof
  show ?first
    using assms
    by (auto simp: handler_def handler_try_def ensureSchema_def run_sql_def Let_def
        split: prod.splits sum.splits)
  show ?rejects
  proof (intro allI impI)
    fix err d1
    assume s0: "sql rt CreateTableIfNotExists d = (Inl err, d1)"
    show "handler rt e req (d, []) =
            (error_response err, (d1, [(CreateTableIfNotExists, Inl err)])) \<and>
          status (error_response err) = 500"
      using handler_schema_rejects[OF assms s0, of "[]"]
      by (simp add: handler_def error_response_def)
  qed
qed

theorem ensureSchema_runs_before_dispatch_witness:
  "handler unreachable_rt example_env example_delete (None, []) =
     (error_response connection_refused,
      (None, [(CreateTableIfNotExists, Inl connection_refused)])) \<and>
   status (error_response connection_refused) = 500"
proof -
  have nd: "\<not> is_diag unreachable_rt example_delete" by (simp add: is_diag_def example_rt_def example_searchParams_def example_JSON_parse_def example_delete_def unreachable_rt_def)
  have cfg: "hasPostgresEnv example_env" by (simp add: hasPostgresEnv_def example_env_def)
  have s0: "sql unreachable_rt CreateTableIfNotExists None = (Inl connection_refused, None)"
    by (simp add: unreachable_rt_def)
  from ensureSchema_runs_before_dispatch[OF nd cfg, of None, THEN conjunct2, rule_format, OF s0]
  show ?thesis .
qed

end
